theory Spec2Isabelle
  imports Complex_Main
begin

section \<open>Actor kinematics and solid collision of js/actors.js\<close>

text \<open>
  A shallow embedding of the Box geometry and of the Actor methods
  \<^verbatim>\<open>processInput\<close>, \<^verbatim>\<open>ambientAcceleration\<close>, \<^verbatim>\<open>move\<close>, \<^verbatim>\<open>stayInWorld\<close>,
  \<^verbatim>\<open>dampVelocity\<close>, \<^verbatim>\<open>moveOutside\<close>, \<^verbatim>\<open>startFalling\<close>, \<^verbatim>\<open>stopFalling\<close>,
  \<^verbatim>\<open>standingOn\<close>, \<^verbatim>\<open>collideSolid\<close> and \<^verbatim>\<open>_collideSolidBox\<close>.

  JavaScript numbers are modelled as real numbers: rounding, infinities and NaN of
  IEEE doubles are outside the model. Counters (\<^verbatim>\<open>numJumps\<close>, \<^verbatim>\<open>MULTI_JUMP\<close>) are
  integers. A method that mutates \<^verbatim>\<open>this\<close> takes the actor and returns the updated
  actor. The globals the methods read (\<^verbatim>\<open>world\<close>, \<^verbatim>\<open>keys\<close>,
  \<^verbatim>\<open>App.physicsDelta\<close>, \<^verbatim>\<open>App.physicsTimeElapsed\<close>) are parameters.
\<close>

subsection \<open>Data model\<close>

text \<open>The global \<^verbatim>\<open>world\<close>: only its size is read here.\<close>

record world =
  width :: real
  height :: real

text \<open>The object \<^verbatim>\<open>{x: ..., y: ...}\<close> that \<^verbatim>\<open>moveOutside\<close> returns.\<close>

record displacement =
  x :: real
  y :: real

text \<open>The global \<^verbatim>\<open>keys\<close>: for each logical direction, the key names bound to it.\<close>

record keys =
  up :: "string list"
  down :: "string list"
  left :: "string list"
  right :: "string list"

text \<open>The object \<^verbatim>\<open>{right: false, left: false}\<close> held in \<^verbatim>\<open>jumpDirection\<close>.\<close>

record momentum =
  right :: bool
  left :: bool

text \<open>The object \<^verbatim>\<open>{falling: ..., collided: ...}\<close> that \<^verbatim>\<open>_collideSolidBox\<close> returns.\<close>

record collision =
  falling :: bool
  collided :: bool

text \<open>Box (lines 35-64): position of the top-left corner and size.\<close>

record box =
  x :: real
  y :: real
  width :: real
  height :: real

text \<open>
  Actor (lines 1389-1570): a Box with the configuration properties and the dynamic
  variables the kinematic methods use. \<^verbatim>\<open>DAMPING_FACTOR\<close> and \<^verbatim>\<open>fallLeft\<close> may be
  \<^verbatim>\<open>null\<close>, which is \<open>None\<close>.
\<close>

record actor = box +
  MOVEAMOUNT :: real
  GRAVITY :: bool
  G_CONST :: real
  JUMP_VEL :: real
  JUMP_DELAY :: real
  AIR_CONTROL :: real
  JUMP_RELEASE :: bool
  MULTI_JUMP :: int
  CONTINUOUS_MOVEMENT :: bool
  STAY_IN_WORLD :: bool
  DAMPING_FACTOR :: "real option"
  lastLooked :: "string list"
  xVelocity :: real
  yVelocity :: real
  xAcceleration :: real
  yAcceleration :: real
  lastJump :: real
  lastDirection :: "string list"
  jumpDirection :: momentum
  jumpKeyDown :: bool
  numJumps :: int
  inAir :: bool
  fallLeft :: "bool option"
  lastX :: real
  lastY :: real

text \<open>
  An Actor with the given box and the default property values of
  \<^verbatim>\<open>Actor.extend({...})\<close> and \<^verbatim>\<open>init\<close> (lines 1394-1570). The arguments are taken
  as they are: the defaulting of missing arguments in \<^verbatim>\<open>Box.init\<close> is not modelled.
\<close>

definition newActor :: "real \<Rightarrow> real \<Rightarrow> real \<Rightarrow> real \<Rightarrow> actor" where
  "newActor x0 y0 w h =
     \<lparr> box.x = x0, box.y = y0, box.width = w, box.height = h,
       MOVEAMOUNT = 400, GRAVITY = False, G_CONST = 21, JUMP_VEL = 500,
       JUMP_DELAY = 1 / 4, AIR_CONTROL = 1 / 4, JUMP_RELEASE = False, MULTI_JUMP = 0,
       CONTINUOUS_MOVEMENT = False, STAY_IN_WORLD = True, DAMPING_FACTOR = None,
       lastLooked = [], xVelocity = 0, yVelocity = 0, xAcceleration = 0,
       yAcceleration = 0, lastJump = 0, lastDirection = [],
       jumpDirection = \<lparr> momentum.right = False, momentum.left = False \<rparr>,
       jumpKeyDown = False, numJumps = 0, inAir = False, fallLeft = None,
       lastX = x0, lastY = y0 \<rparr>"

text \<open>
  What \<^verbatim>\<open>collideSolid\<close> accepts: a Box, a Collection (its \<^verbatim>\<open>items\<close> array) or a
  TileMap (its \<^verbatim>\<open>grid\<close>, an array of rows whose cells are \<^verbatim>\<open>null\<close> or a Box).
\<close>

datatype collidable =
  SingleBox box
| Collection "box list"
| TileMap "box option list list"

datatype error = TypeError

subsection \<open>Helpers that are not in the source file\<close>

text \<open>
  Modelled from the spec: \<^verbatim>\<open>App.Utils.almostEqual(a, b, e)\<close> is called by the source
  but defined elsewhere. The spec gives the standing test as
  \<^verbatim>\<open>|actor.bottom - obstacle.top| <= 1px\<close>, the call being
  \<^verbatim>\<open>almostEqual(this.y + this.height, box.y, 1)\<close>: the distance is at most the
  tolerance.
\<close>

definition almostEqual :: "real \<Rightarrow> real \<Rightarrow> real \<Rightarrow> bool" where
  "almostEqual a b e = (\<bar>a - b\<bar> \<le> e)"

text \<open>
  Modelled from the spec: \<^verbatim>\<open>App.Utils.anyIn(search, target)\<close> is called by the source
  but defined elsewhere. The spec's input provider supplies the currently active
  directions; a logical direction is active when one of the keys bound to it is among
  them.
\<close>

definition anyIn :: "string list \<Rightarrow> string list \<Rightarrow> bool" where
  "anyIn search target = (\<exists>s \<in> set search. s \<in> set target)"

subsection \<open>Box geometry (lines 217-239)\<close>

definition overlapsX :: "'a box_scheme \<Rightarrow> 'b box_scheme \<Rightarrow> bool" where
  "overlapsX this otherBox =
     (box.x this + box.width this \<ge> box.x otherBox \<and>
      box.x otherBox + box.width otherBox \<ge> box.x this)"

definition overlapsY :: "'a box_scheme \<Rightarrow> 'b box_scheme \<Rightarrow> bool" where
  "overlapsY this otherBox =
     (box.y this + box.height this \<ge> box.y otherBox \<and>
      box.y otherBox + box.height otherBox \<ge> box.y this)"

definition overlaps :: "'a box_scheme \<Rightarrow> 'b box_scheme \<Rightarrow> bool" where
  "overlaps this otherBox = (overlapsX this otherBox \<and> overlapsY this otherBox)"

subsection \<open>Falling and landing (lines 1999-2035)\<close>

definition isInAir :: "actor \<Rightarrow> bool" where
  "isInAir this = inAir this"

definition startFalling :: "actor \<Rightarrow> actor" where
  "startFalling this =
     (let this1 =
        (if \<not> inAir this \<and> fallLeft this \<noteq> None
         then this\<lparr>jumpDirection :=
                (jumpDirection this)\<lparr>momentum.left := the (fallLeft this),
                                      momentum.right := \<not> the (fallLeft this)\<rparr>\<rparr>
         else this)
      in this1\<lparr>inAir := True\<rparr>)"

definition stopFalling :: "actor \<Rightarrow> actor" where
  "stopFalling this =
     (let this1 = (if yAcceleration this > 0 then this\<lparr>yAcceleration := 0\<rparr> else this);
          this2 = (if yVelocity this1 > 0 then this1\<lparr>yVelocity := 0\<rparr> else this1)
      in this2\<lparr>numJumps := 0, inAir := False\<rparr>)"

subsection \<open>Input processing (lines 1621-1718)\<close>

text \<open>
  \<^verbatim>\<open>processInput\<close> is one long method; its body after the early returns is embedded
  in three parts, in the order of the source. \<open>now\<close> is \<^verbatim>\<open>App.physicsTimeElapsed\<close>.

  First part, "Move left" and "Move right" (lines 1642-1673); \<open>goLeft\<close> and
  \<open>goRight\<close> are the local variables \<^verbatim>\<open>left\<close> and \<^verbatim>\<open>right\<close>.
\<close>

definition moveLeftRight :: "bool \<Rightarrow> bool \<Rightarrow> actor \<Rightarrow> actor" where
  "moveLeftRight goLeft goRight this =
     (if goLeft then
        (let t = this\<lparr>fallLeft := Some True\<rparr> in
         if GRAVITY t \<and> isInAir t then
           (if momentum.right (jumpDirection t) \<or> \<not> momentum.left (jumpDirection t)
            then t\<lparr>xVelocity := - MOVEAMOUNT t * AIR_CONTROL t,
                   jumpDirection := (jumpDirection t)\<lparr>momentum.right := False,
                                                        momentum.left := False\<rparr>\<rparr>
            else t)
         else t\<lparr>xVelocity := - MOVEAMOUNT t\<rparr>)
      else if goRight then
        (let t = this\<lparr>fallLeft := Some False\<rparr> in
         if GRAVITY t \<and> isInAir t then
           (if momentum.left (jumpDirection t) \<or> \<not> momentum.right (jumpDirection t)
            then t\<lparr>xVelocity := MOVEAMOUNT t * AIR_CONTROL t,
                   jumpDirection := (jumpDirection t)\<lparr>momentum.right := False,
                                                        momentum.left := False\<rparr>\<rparr>
            else t)
         else t\<lparr>xVelocity := MOVEAMOUNT t\<rparr>)
      else this)"

text \<open>
  Second part, "Move up / jump" and "Move down" (lines 1675-1703). \<open>goUp\<close> and
  \<open>goDown\<close> are the two \<^verbatim>\<open>anyIn\<close> tests; the result holds the actor and the local
  variable \<^verbatim>\<open>looked\<close>, which comes in as \<open>looked0\<close>.
\<close>

definition moveUpDown ::
    "real \<Rightarrow> bool \<Rightarrow> bool \<Rightarrow> bool \<Rightarrow> bool \<Rightarrow> bool \<Rightarrow> actor \<Rightarrow> actor \<times> bool" where
  "moveUpDown now goUp goDown goLeft goRight looked0 this =
     (if goUp then
        (let t =
           (if \<not> GRAVITY this then this\<lparr>yVelocity := - MOVEAMOUNT this\<rparr>
            else if \<not> isInAir this \<or> MULTI_JUMP this > numJumps this \<or>
                    MULTI_JUMP this = - 1 then
              (if now - lastJump this > JUMP_DELAY this \<and>
                  (\<not> JUMP_RELEASE this \<or> \<not> jumpKeyDown this)
               then this\<lparr>yVelocity := - JUMP_VEL this,
                         lastJump := now,
                         jumpDirection := (jumpDirection this)\<lparr>momentum.right := goRight,
                                                                momentum.left := goLeft\<rparr>,
                         numJumps := numJumps this + 1,
                         inAir := True\<rparr>
               else this)
            else this)
         in (t\<lparr>jumpKeyDown := True\<rparr>, looked0 \<or> \<not> GRAVITY this))
      else if goDown then
        (if \<not> isInAir this \<or> \<not> GRAVITY this
         then (this\<lparr>yVelocity := MOVEAMOUNT this\<rparr>, True)
         else (this, looked0))
      else (this, looked0))"

text \<open>Third part, the update of \<^verbatim>\<open>lastLooked\<close> (lines 1705-1717).\<close>

definition rememberLooked :: "keys \<Rightarrow> string list \<Rightarrow> bool \<Rightarrow> actor \<Rightarrow> actor" where
  "rememberLooked k direction looked this =
     (if looked then
        this\<lparr>lastLooked :=
          (if GRAVITY this
           then filter (\<lambda>s. s \<in> set (keys.left k) \<or> s \<in> set (keys.right k)) direction
           else direction)\<rparr>
      else this)"

definition processDirections :: "keys \<Rightarrow> real \<Rightarrow> string list \<Rightarrow> actor \<Rightarrow> actor" where
  "processDirections k now direction this =
     (let this0 = this\<lparr>lastDirection := direction\<rparr>;
          left = anyIn (keys.left k) direction;
          right = (\<not> left \<and> anyIn (keys.right k) direction);
          this1 = moveLeftRight left right this0;
          (this2, looked) =
            moveUpDown now (anyIn (keys.up k) direction) (anyIn (keys.down k) direction)
              left right (left \<or> right) this1
      in rememberLooked k direction looked this2)"

text \<open>
  \<^verbatim>\<open>processInput(direction)\<close>. \<open>keysVar\<close> is the global \<^verbatim>\<open>keys\<close>, \<open>None\<close> when it
  is undefined; \<open>direction\<close> is \<open>None\<close> when the argument is undefined.
\<close>

definition processInput :: "keys option \<Rightarrow> real \<Rightarrow> string list option \<Rightarrow> actor \<Rightarrow> actor" where
  "processInput keysVar now direction this =
     (case keysVar of
        None \<Rightarrow> this
      | Some k \<Rightarrow>
          (if direction = None \<or> direction = Some [] then
             (if CONTINUOUS_MOVEMENT this
              then processDirections k now (lastLooked this) this
              else this)
           else processDirections k now (the direction) this))"

text \<open>\<^verbatim>\<open>release(releasedDirections)\<close> (lines 2420-2425).\<close>

definition release :: "keys option \<Rightarrow> string list \<Rightarrow> actor \<Rightarrow> actor" where
  "release keysVar releasedDirections this =
     (case keysVar of
        None \<Rightarrow> this
      | Some k \<Rightarrow>
          (if GRAVITY this \<and> anyIn (keys.up k) releasedDirections
           then this\<lparr>jumpKeyDown := False\<rparr> else this))"

subsection \<open>Ambient acceleration (lines 1725-1742)\<close>

definition ambientAcceleration :: "actor \<Rightarrow> actor" where
  "ambientAcceleration this =
     (if GRAVITY this then
        (if isInAir this then
           (let this1 = this\<lparr>yAcceleration := yAcceleration this + G_CONST this\<rparr> in
            if momentum.left (jumpDirection this1)
              then this1\<lparr>xVelocity := - MOVEAMOUNT this1\<rparr>
            else if momentum.right (jumpDirection this1)
              then this1\<lparr>xVelocity := MOVEAMOUNT this1\<rparr>
            else this1)
         else stopFalling this)
      else this)"

subsection \<open>The integrator (lines 1747-1790)\<close>

definition stayInWorld :: "world \<Rightarrow> actor \<Rightarrow> actor" where
  "stayInWorld w this =
     (if STAY_IN_WORLD this then
        (let this1 =
           (if box.x this < 0 then this\<lparr>box.x := 0\<rparr>
            else if box.x this + box.width this > world.width w
              then this\<lparr>box.x := world.width w - box.width this\<rparr>
            else this)
         in if box.y this1 < 0 then this1\<lparr>box.y := 0\<rparr>
            else if box.y this1 + box.height this1 > world.height w
              then stopFalling (this1\<lparr>box.y := world.height w - box.height this1\<rparr>)
            else this1)
      else this)"

text \<open>
  A JavaScript division never raises; by zero it yields an infinity or NaN, which the
  real numbers do not have. So a division is modelled with an explicit result: \<open>None\<close>
  when the divisor is zero.
\<close>

definition divide_js :: "real \<Rightarrow> real \<Rightarrow> real option" where
  "divide_js a b = (if b = 0 then None else Some (a / b))"

text \<open>
  The block of \<^verbatim>\<open>move\<close> under the comment "Don't let diagonal movement be faster
  than axial movement" (lines 1752-1760).
\<close>

definition limitDiagonalSpeed :: "actor \<Rightarrow> actor option" where
  "limitDiagonalSpeed this =
     (let xV = xVelocity this; yV = yVelocity this in
      if xV \<noteq> 0 \<and> yV \<noteq> 0 \<and> \<not> GRAVITY this then
        (let magnitude = max \<bar>xV\<bar> \<bar>yV\<bar>;
             origMag = sqrt (xV * xV + yV * yV)
         in case divide_js magnitude origMag of
              None \<Rightarrow> None
            | Some scale \<Rightarrow>
                Some (this\<lparr>xVelocity := xVelocity this * scale,
                           yVelocity := yVelocity this * scale\<rparr>))
      else Some this)"

text \<open>\<^verbatim>\<open>move()\<close>; \<open>delta\<close> is \<^verbatim>\<open>App.physicsDelta\<close>.\<close>

definition move :: "world \<Rightarrow> real \<Rightarrow> actor \<Rightarrow> actor option" where
  "move w delta this =
     (case divide_js delta 2 of
        None \<Rightarrow> None
      | Some d2 \<Rightarrow>
          (let \<comment> \<open>Apply half acceleration (first half of midpoint formula)\<close>
               this1 = this\<lparr>xVelocity := xVelocity this + xAcceleration this * d2\<rparr>;
               this2 = this1\<lparr>yVelocity := yVelocity this1 + yAcceleration this1 * d2\<rparr>
           in case limitDiagonalSpeed this2 of
                None \<Rightarrow> None
              | Some this3 \<Rightarrow>
                  (let \<comment> \<open>Apply thrust\<close>
                       this4 = this3\<lparr>box.x := box.x this3 + xVelocity this3 * delta\<rparr>;
                       this5 = this4\<lparr>box.y := box.y this4 + yVelocity this4 * delta\<rparr>;
                       \<comment> \<open>Apply half acceleration (second half of midpoint formula)\<close>
                       this6 = this5\<lparr>xVelocity := xVelocity this5 + xAcceleration this5 * d2\<rparr>;
                       this7 = this6\<lparr>yVelocity := yVelocity this6 + yAcceleration this6 * d2\<rparr>
                   in Some (stayInWorld w this7))))"

subsection \<open>Velocity damping (lines 1799-1812)\<close>

definition dampVelocity :: "real \<Rightarrow> actor \<Rightarrow> actor" where
  "dampVelocity delta this =
     (if DAMPING_FACTOR this \<noteq> None \<and> \<not> almostEqual (xVelocity this) 0 (1 / 10000) then
        (let this1 = this\<lparr>xVelocity :=
                       xVelocity this * (1 - the (DAMPING_FACTOR this) * delta)\<rparr>
         in if \<not> GRAVITY this1 \<and> \<not> almostEqual (yVelocity this1) 0 (1 / 10000)
            then this1\<lparr>yVelocity :=
                   yVelocity this1 * (1 - the (DAMPING_FACTOR this1) * delta)\<rparr>
            else this1)
      else
        (let this1 = this\<lparr>xVelocity := 0\<rparr>
         in if \<not> GRAVITY this1 then this1\<lparr>yVelocity := 0\<rparr> else this1))"

subsection \<open>Moving out of an obstacle (lines 1912-1989)\<close>

definition moveOutsideX :: "actor \<Rightarrow> box \<Rightarrow> actor \<times> real" where
  "moveOutsideX this other =
     (if overlaps this other then
        (if box.x this + box.width this / 2 < box.x other + box.width other / 2 then
           (let movedTo = box.x other - box.width this - 1
            in (this\<lparr>box.x := movedTo\<rparr>, movedTo - box.x this))
         else
           (let movedTo = box.x other + box.width other + 1
            in (this\<lparr>box.x := movedTo\<rparr>, movedTo - box.x this)))
      else (this, 0))"

definition moveOutsideY :: "actor \<Rightarrow> box \<Rightarrow> actor \<times> real" where
  "moveOutsideY this other =
     (if overlaps this other then
        (if box.y this + box.height this / 2 \<le> box.y other + box.height other / 2 then
           (let movedTo = box.y other - box.height this - 1
            in (this\<lparr>box.y := movedTo\<rparr>, movedTo - box.y this))
         else
           (let movedTo = box.y other + box.height other + 1
            in (this\<lparr>box.y := movedTo\<rparr>, movedTo - box.y this)))
      else (this, 0))"

text \<open>
  The properties of the returned object literal are evaluated in the order they are
  written, so the first branch calls \<^verbatim>\<open>moveOutsideX\<close> first and the second
  \<^verbatim>\<open>moveOutsideY\<close> first.
\<close>

definition moveOutside :: "actor \<Rightarrow> box \<Rightarrow> actor \<times> displacement" where
  "moveOutside this other =
     (let overlapsX = min (box.x this + box.width this - box.x other)
                          (box.x other + box.width other - box.x this);
          overlapsY = min (box.y this + box.height this - box.y other)
                          (box.y other + box.height other - box.y this)
      in if overlapsX \<le> overlapsY then
           (let (this1, mx) = moveOutsideX this other;
                (this2, my) = moveOutsideY this1 other
            in (this2, \<lparr>displacement.x = mx, displacement.y = my\<rparr>))
         else
           (let (this1, my) = moveOutsideY this other;
                (this2, mx) = moveOutsideX this1 other
            in (this2, \<lparr>displacement.x = mx, displacement.y = my\<rparr>)))"

subsection \<open>Standing and solid collision (lines 2074-2182)\<close>

text \<open>
  \<^verbatim>\<open>standingOn(box)\<close> for a single Box, which is what \<^verbatim>\<open>_collideSolidBox\<close> passes;
  for a Collection or a TileMap the source asks whether the Actor stands on one of the
  items.
\<close>

definition standingOn :: "actor \<Rightarrow> box \<Rightarrow> bool" where
  "standingOn this b =
     (overlapsX this b \<and> almostEqual (box.y this + box.height this) (box.y b) 1)"

definition standingOnAll :: "actor \<Rightarrow> box list \<Rightarrow> bool" where
  "standingOnAll this items = list_ex (standingOn this) items"

definition collideSolidBox :: "actor \<Rightarrow> box \<Rightarrow> actor \<times> collision" where
  "collideSolidBox this collideWith =
     (let \<comment> \<open>If we moved a little too far and now intersect a solid, back out.\<close>
          (this1, collided) =
            (if overlaps this collideWith
             then (fst (moveOutside this collideWith), True)
             else (this, False))
      in if GRAVITY this1 then
           (let x = box.x this1;
                this2 = this1\<lparr>box.x := lastX this1\<rparr>;
                (this3, falling) =
                  (if standingOn this2 collideWith
                   then (stopFalling this2, False)
                   else (this2, True));
                this4 = this3\<lparr>box.x := x\<rparr>;
                \<comment> \<open>If we're in the air and we hit something, stop the momentum.\<close>
                this5 =
                  (if falling \<and> collided then
                     (if almostEqual (box.y this4)
                           (box.y collideWith + box.height collideWith) 1 then
                        (let t = (if yAcceleration this4 < 0
                                  then this4\<lparr>yAcceleration := 0\<rparr> else this4)
                         in if yVelocity t < 0 then t\<lparr>yVelocity := 0\<rparr> else t)
                      else
                        this4\<lparr>jumpDirection :=
                          (jumpDirection this4)\<lparr>momentum.left := False,
                                                  momentum.right := False\<rparr>\<rparr>)
                   else this4)
            in (this5, \<lparr>collision.falling = falling, collision.collided = collided\<rparr>))
         else (this1, \<lparr>collision.falling = True, collision.collided = collided\<rparr>))"

text \<open>
  \<^verbatim>\<open>Collection.getAll\<close> returns the items. \<^verbatim>\<open>TileMap.getAll\<close> (lines 775-785) reads
  \<^verbatim>\<open>h\<close> cells of every row, \<^verbatim>\<open>h\<close> being the length of the first row, and keeps those
  that are not \<^verbatim>\<open>null\<close>. A row shorter than \<^verbatim>\<open>h\<close> yields \<^verbatim>\<open>undefined\<close> entries, on
  which the collision code fails with a TypeError when it reads their position; the
  model reports that failure here.
\<close>

definition getAllRow :: "nat \<Rightarrow> box option list \<Rightarrow> error + box list" where
  "getAllRow h row =
     (if length row < h then Inl TypeError
      else Inr (concat (map (\<lambda>c. case c of None \<Rightarrow> [] | Some b \<Rightarrow> [b]) (take h row))))"

fun getAllRows :: "nat \<Rightarrow> box option list list \<Rightarrow> error + box list" where
  "getAllRows h [] = Inr []"
| "getAllRows h (row # rows) =
     (case getAllRow h row of
        Inl e \<Rightarrow> Inl e
      | Inr r \<Rightarrow> (case getAllRows h rows of Inl e \<Rightarrow> Inl e | Inr rs \<Rightarrow> Inr (r @ rs)))"

definition getAll :: "box option list list \<Rightarrow> error + box list" where
  "getAll grid = getAllRows (case grid of [] \<Rightarrow> 0 | row0 # _ \<Rightarrow> length row0) grid"

text \<open>
  The loop of \<^verbatim>\<open>collideSolid\<close> over the items, with its two flags as accumulators.
\<close>

fun collideItems :: "actor \<Rightarrow> box list \<Rightarrow> bool \<Rightarrow> bool \<Rightarrow> actor \<times> bool \<times> bool" where
  "collideItems this [] fallingFlag collidedFlag = (this, fallingFlag, collidedFlag)"
| "collideItems this (item # items) fallingFlag collidedFlag =
     (let (this1, result) = collideSolidBox this item
      in collideItems this1 items
           (if \<not> collision.falling result then False else fallingFlag)
           (if collision.collided result then True else collidedFlag))"

text \<open>
  \<^verbatim>\<open>collideSolid\<close> up to the end of its loop: the actor and the local variables
  \<^verbatim>\<open>falling\<close> and \<^verbatim>\<open>collided\<close> at that point.
\<close>

definition collideSolidLoop ::
    "world \<Rightarrow> actor \<Rightarrow> collidable \<Rightarrow> error + (actor \<times> bool \<times> bool)" where
  "collideSolidLoop w this collideWith =
     (let falling = (GRAVITY this \<and>
            (box.y this + box.height this \<noteq> world.height w \<or> \<not> STAY_IN_WORLD this))
      in case collideWith of
           SingleBox b \<Rightarrow>
             (let (this1, result) = collideSolidBox this b
              in Inr (this1, collision.falling result, collision.collided result))
         | Collection items \<Rightarrow> Inr (collideItems this items falling False)
         | TileMap grid \<Rightarrow>
             (case getAll grid of
                Inl e \<Rightarrow> Inl e
              | Inr items \<Rightarrow> Inr (collideItems this items falling False)))"

text \<open>
  \<^verbatim>\<open>collideSolid(collideWith)\<close>: the updated actor and the returned \<^verbatim>\<open>collided\<close>.
\<close>

definition collideSolid :: "world \<Rightarrow> actor \<Rightarrow> collidable \<Rightarrow> error + (actor \<times> bool)" where
  "collideSolid w this collideWith =
     (case collideSolidLoop w this collideWith of
        Inl e \<Rightarrow> Inl e
      | Inr (this1, fallingFlag, collidedFlag) \<Rightarrow>
          \<comment> \<open>If the Actor isn't standing on a solid, it needs to start falling.\<close>
          Inr (if fallingFlag then startFalling this1 else this1, collidedFlag))"

text \<open>
  The obstacles the loop visits, each with the actor as it is when the obstacle is
  visited (earlier obstacles may have moved it).
\<close>

fun visits :: "actor \<Rightarrow> box list \<Rightarrow> (actor \<times> box) list" where
  "visits this [] = []"
| "visits this (item # items) = (this, item) # visits (fst (collideSolidBox this item)) items"

subsection \<open>Concrete inputs\<close>

text \<open>Inputs at which the theorems below are instantiated and the code is evaluated.\<close>

definition exampleKeys :: keys where
  "exampleKeys = \<lparr>keys.up = [''up'', ''w''], keys.down = [''down'', ''s''],
                   keys.left = [''left'', ''a''], keys.right = [''right'', ''d'']\<rparr>"

definition exampleWorld :: world where
  "exampleWorld = \<lparr>world.width = 800, world.height = 600\<rparr>"

text \<open>A side-view actor: a default Actor with gravity switched on.\<close>

definition gravityActor :: actor where
  "gravityActor = (newActor 10 10 20 20)\<lparr>GRAVITY := True\<rparr>"

text \<open>Two boxes overlapping at a corner, with equal penetration on both axes.\<close>

definition cornerActor :: actor where
  "cornerActor = newActor 10 10 10 10"

definition cornerBox :: box where
  "cornerBox = \<lparr>box.x = 15, box.y = 15, box.width = 10, box.height = 10\<rparr>"

text \<open>Two coinciding boxes that are wider than high: their centres are equal.\<close>

definition wideActor :: actor where
  "wideActor = newActor 10 10 30 10"

definition wideBox :: box where
  "wideBox = \<lparr>box.x = 10, box.y = 10, box.width = 30, box.height = 10\<rparr>"

text \<open>
  An actor in a jump arc that reaches the top-left corner of a wall: at its current
  position it touches the wall's top, at its previous position it was left of the wall.
\<close>

definition jumpingActor :: actor where
  "jumpingActor = (newActor 95 10 20 20)\<lparr>GRAVITY := True, lastX := 60, inAir := True,
                                          numJumps := 1\<rparr>"

definition wallBox :: box where
  "wallBox = \<lparr>box.x = 100, box.y = 30, box.width = 50, box.height = 50\<rparr>"

text \<open>
  An actor taller than the world whose top is above the world and whose bottom is below
  it, and an actor that has fallen through the floor.
\<close>

definition tallActor :: actor where
  "tallActor = (newActor 10 (- 5) 20 700)\<lparr>GRAVITY := True, inAir := True, yVelocity := 30\<rparr>"

definition sunkActor :: actor where
  "sunkActor = (newActor 10 590 20 20)\<lparr>GRAVITY := True, inAir := True, numJumps := 1,
                                         yVelocity := 30\<rparr>"

text \<open>
  A grounded actor that has just walked to the right past the end of a platform that
  ends at x = 80.
\<close>

definition ledgeActor :: actor where
  "ledgeActor = (newActor 101 80 20 20)\<lparr>GRAVITY := True, lastX := 95,
                                         fallLeft := Some False\<rparr>"

definition platformBox :: box where
  "platformBox = \<lparr>box.x = 20, box.y = 100, box.width = 60, box.height = 20\<rparr>"

text \<open>
  A top-down actor with a damping factor, moving fast to the right and hardly at all
  vertically; and a side-view actor with a damping factor that hardly moves
  horizontally.
\<close>

definition slidingActor :: actor where
  "slidingActor = (newActor 10 10 20 20)\<lparr>DAMPING_FACTOR := Some 1, xVelocity := 100,
                                           yVelocity := 1 / 20000\<rparr>"

definition creepingActor :: actor where
  "creepingActor = (newActor 10 10 20 20)\<lparr>GRAVITY := True, DAMPING_FACTOR := Some 1,
                                            xVelocity := 1 / 20000, yVelocity := 50\<rparr>"

text \<open>A top-down actor moving diagonally.\<close>

definition diagonalActor :: actor where
  "diagonalActor = (newActor 10 10 20 20)\<lparr>xVelocity := 3, yVelocity := 4\<rparr>"

text \<open>
  A side-view actor that has walked off a ledge and is falling: in the air without
  having jumped.
\<close>

definition fallingActor :: actor where
  "fallingActor = (newActor 10 10 20 20)\<lparr>GRAVITY := True, inAir := True\<rparr>"

text \<open>A side-view actor resting on the floor of the world.\<close>

definition floorActor :: actor where
  "floorActor = (newActor 10 580 20 20)\<lparr>GRAVITY := True\<rparr>"

text \<open>A top-down actor with a damping factor, moving straight down.\<close>

definition driftingActor :: actor where
  "driftingActor = (newActor 10 10 20 20)\<lparr>DAMPING_FACTOR := Some 1, yVelocity := 400\<rparr>"

text \<open>
  Two more obstacles for the actor at the ledge: a wall its right edge has run into, and
  a platform under its feet.
\<close>

definition sideWall :: box where
  "sideWall = \<lparr>box.x = 120, box.y = 50, box.width = 30, box.height = 100\<rparr>"

definition supportBox :: box where
  "supportBox = \<lparr>box.x = 90, box.y = 100, box.width = 60, box.height = 20\<rparr>"

text \<open>
  A side-view actor in mid-jump, and a top-down actor accelerating to the right; both
  inside the world.
\<close>

definition movingActor :: actor where
  "movingActor = (newActor 10 10 20 20)\<lparr>GRAVITY := True, inAir := True, xVelocity := 400,
                                         yVelocity := - 500, yAcceleration := 21\<rparr>"

definition glidingActor :: actor where
  "glidingActor = (newActor 10 10 20 20)\<lparr>xVelocity := 400, xAcceleration := 10\<rparr>"

section \<open>Properties\<close>

subsection \<open>Jump eligibility\<close>

lemma processInput_up:
  assumes "anyIn (keys.up k) d"
  shows "processInput (Some k) now (Some d) a = processDirections k now d a"
proof -
  from assms have "d \<noteq> []" by (auto simp: anyIn_def)
  then show ?thesis by (simp add: processInput_def)
qed

lemma moveLeftRight_frame:
  "GRAVITY (moveLeftRight l r a) = GRAVITY a"
  "inAir (moveLeftRight l r a) = inAir a"
  "numJumps (moveLeftRight l r a) = numJumps a"
  "MULTI_JUMP (moveLeftRight l r a) = MULTI_JUMP a"
  "lastJump (moveLeftRight l r a) = lastJump a"
  "JUMP_DELAY (moveLeftRight l r a) = JUMP_DELAY a"
  "JUMP_RELEASE (moveLeftRight l r a) = JUMP_RELEASE a"
  "jumpKeyDown (moveLeftRight l r a) = jumpKeyDown a"
  "JUMP_VEL (moveLeftRight l r a) = JUMP_VEL a"
  "yVelocity (moveLeftRight l r a) = yVelocity a"
  by (simp_all add: moveLeftRight_def Let_def)

lemma rememberLooked_frame:
  "yVelocity (rememberLooked k d b a) = yVelocity a"
  "lastJump (rememberLooked k d b a) = lastJump a"
  "numJumps (rememberLooked k d b a) = numJumps a"
  "inAir (rememberLooked k d b a) = inAir a"
  "jumpDirection (rememberLooked k d b a) = jumpDirection a"
  by (simp_all add: rememberLooked_def)

lemma processInput_up_parts:
  assumes "anyIn (keys.up k) d"
  shows "processInput (Some k) now (Some d) a =
         (let l = anyIn (keys.left k) d;
              r = (\<not> l \<and> anyIn (keys.right k) d);
              res = moveUpDown now True (anyIn (keys.down k) d) l r (l \<or> r)
                      (moveLeftRight l r (a\<lparr>lastDirection := d\<rparr>))
          in rememberLooked k d (snd res) (fst res))"
  unfolding processInput_up[OF assms]
  by (simp add: processDirections_def Let_def assms split_beta)

text \<open>
  C1. With GRAVITY enabled and an up key among the directions, \<^verbatim>\<open>processInput\<close>
  accepts the jump exactly when (the actor is not in the air, or
  \<open>numJumps < MULTI_JUMP\<close>, or \<open>MULTI_JUMP = -1\<close>) and \<open>now - lastJump > JUMP_DELAY\<close> and
  (\<open>JUMP_RELEASE\<close> is off or the jump key is up). On acceptance \<open>yVelocity\<close> is
  \<open>- JUMP_VEL\<close>, \<open>lastJump\<close> is \<open>now\<close>, \<open>numJumps\<close> is one more, \<open>inAir\<close> holds and
  \<open>jumpDirection\<close> holds the horizontal input (left when a left key is given, right
  when a right key and no left key is given). On rejection \<open>yVelocity\<close>, \<open>lastJump\<close>,
  \<open>numJumps\<close> and \<open>inAir\<close> are unchanged.
\<close>

theorem C1_jump_acceptance:
  assumes "GRAVITY a" and "anyIn (keys.up k) d"
  shows "if (\<not> inAir a \<or> numJumps a < MULTI_JUMP a \<or> MULTI_JUMP a = - 1) \<and>
            now - lastJump a > JUMP_DELAY a \<and>
            (\<not> JUMP_RELEASE a \<or> \<not> jumpKeyDown a)
         then yVelocity (processInput (Some k) now (Some d) a) = - JUMP_VEL a \<and>
              lastJump (processInput (Some k) now (Some d) a) = now \<and>
              numJumps (processInput (Some k) now (Some d) a) = numJumps a + 1 \<and>
              inAir (processInput (Some k) now (Some d) a) \<and>
              jumpDirection (processInput (Some k) now (Some d) a) =
                \<lparr>momentum.right = (\<not> anyIn (keys.left k) d \<and> anyIn (keys.right k) d),
                 momentum.left = anyIn (keys.left k) d\<rparr>
         else yVelocity (processInput (Some k) now (Some d) a) = yVelocity a \<and>
              lastJump (processInput (Some k) now (Some d) a) = lastJump a \<and>
              numJumps (processInput (Some k) now (Some d) a) = numJumps a \<and>
              inAir (processInput (Some k) now (Some d) a) = inAir a"
proof -
  define l where "l = anyIn (keys.left k) d"
  define r where "r = (\<not> l \<and> anyIn (keys.right k) d)"
  define a1 where "a1 = moveLeftRight l r (a\<lparr>lastDirection := d\<rparr>)"
  define res where "res = moveUpDown now True (anyIn (keys.down k) d) l r (l \<or> r) a1"
  have pi: "processInput (Some k) now (Some d) a = rememberLooked k d (snd res) (fst res)"
    unfolding processInput_up_parts[OF assms(2)]
    by (simp add: Let_def res_def a1_def r_def l_def)
  have g1: "GRAVITY a1"
    using assms(1) by (simp add: a1_def moveLeftRight_frame)
  show ?thesis
    unfolding pi rememberLooked_frame
    using g1
    by (simp add: res_def moveUpDown_def isInAir_def Let_def a1_def moveLeftRight_frame
          r_def l_def)
qed

theorem C1_jump_acceptance_witness:
  "GRAVITY gravityActor \<and> anyIn (keys.up exampleKeys) [''up'', ''right''] \<and>
   yVelocity (processInput (Some exampleKeys) 1 (Some [''up'', ''right'']) gravityActor) = - 500 \<and>
   lastJump (processInput (Some exampleKeys) 1 (Some [''up'', ''right'']) gravityActor) = 1 \<and>
   numJumps (processInput (Some exampleKeys) 1 (Some [''up'', ''right'']) gravityActor) = 1 \<and>
   inAir (processInput (Some exampleKeys) 1 (Some [''up'', ''right'']) gravityActor) \<and>
   jumpDirection (processInput (Some exampleKeys) 1 (Some [''up'', ''right'']) gravityActor) =
     \<lparr>momentum.right = True, momentum.left = False\<rparr>"
  using C1_jump_acceptance [of gravityActor exampleKeys "[''up'', ''right'']" 1]
  by (simp add: gravityActor_def exampleKeys_def newActor_def anyIn_def)

subsection \<open>Moving out of an obstacle\<close>

lemma moveOutsideX_apart:
  "overlaps a b \<Longrightarrow> \<not> overlaps (fst (moveOutsideX a b)) b"
  by (simp add: moveOutsideX_def overlaps_def overlapsX_def overlapsY_def Let_def)

lemma moveOutsideY_apart:
  "overlaps a b \<Longrightarrow> \<not> overlaps (fst (moveOutsideY a b)) b"
  by (simp add: moveOutsideY_def overlaps_def overlapsX_def overlapsY_def Let_def)

lemma moveOutsideX_idle: "\<not> overlaps a b \<Longrightarrow> moveOutsideX a b = (a, 0)"
  by (simp add: moveOutsideX_def)

lemma moveOutsideY_idle: "\<not> overlaps a b \<Longrightarrow> moveOutsideY a b = (a, 0)"
  by (simp add: moveOutsideY_def)

lemma moveOutsideX_hit:
  "overlaps a b \<Longrightarrow> moveOutsideX a b =
     (let movedTo = (if box.x a + box.width a / 2 < box.x b + box.width b / 2
                     then box.x b - box.width a - 1 else box.x b + box.width b + 1)
      in (a\<lparr>box.x := movedTo\<rparr>, movedTo - box.x a))"
  by (simp add: moveOutsideX_def Let_def)

lemma moveOutsideY_hit:
  "overlaps a b \<Longrightarrow> moveOutsideY a b =
     (let movedTo = (if box.y a + box.height a / 2 \<le> box.y b + box.height b / 2
                     then box.y b - box.height a - 1 else box.y b + box.height b + 1)
      in (a\<lparr>box.y := movedTo\<rparr>, movedTo - box.y a))"
  by (simp add: moveOutsideY_def Let_def)

text \<open>
  C2, as the code has it. For overlapping boxes \<^verbatim>\<open>moveOutside\<close> moves the actor on one
  axis only: the axis of smaller penetration depth, the X axis when the depths are
  equal. On that axis the actor is set to \<open>obstacle.start - actorSize - 1\<close> when its
  centre is less than the obstacle's centre (less than or equal, on the Y axis), and to
  \<open>obstacle.end + 1\<close> otherwise, and the displacement is returned. The call for the
  other axis finds the boxes apart, leaves the position and returns 0.
\<close>

theorem C2_moveOutside_first_axis_only:
  assumes "overlaps a b"
  shows "moveOutside a b =
     (if min (box.x a + box.width a - box.x b) (box.x b + box.width b - box.x a)
         \<le> min (box.y a + box.height a - box.y b) (box.y b + box.height b - box.y a)
      then
        (let movedTo = (if box.x a + box.width a / 2 < box.x b + box.width b / 2
                        then box.x b - box.width a - 1 else box.x b + box.width b + 1)
         in (a\<lparr>box.x := movedTo\<rparr>,
             \<lparr>displacement.x = movedTo - box.x a, displacement.y = 0\<rparr>))
      else
        (let movedTo = (if box.y a + box.height a / 2 \<le> box.y b + box.height b / 2
                        then box.y b - box.height a - 1 else box.y b + box.height b + 1)
         in (a\<lparr>box.y := movedTo\<rparr>,
             \<lparr>displacement.x = 0, displacement.y = movedTo - box.y a\<rparr>)))"
proof -
  let ?ox = "min (box.x a + box.width a - box.x b) (box.x b + box.width b - box.x a)"
  let ?oy = "min (box.y a + box.height a - box.y b) (box.y b + box.height b - box.y a)"
  obtain ax mx where X: "moveOutsideX a b = (ax, mx)" by (cases "moveOutsideX a b")
  obtain ay my where Y: "moveOutsideY a b = (ay, my)" by (cases "moveOutsideY a b")
  have nx: "moveOutsideY ax b = (ax, 0)"
    using moveOutsideX_apart[OF assms] X by (simp add: moveOutsideY_idle)
  have ny: "moveOutsideX ay b = (ay, 0)"
    using moveOutsideY_apart[OF assms] Y by (simp add: moveOutsideX_idle)
  have first_x: "?ox \<le> ?oy \<Longrightarrow>
      moveOutside a b = (ax, \<lparr>displacement.x = mx, displacement.y = 0\<rparr>)"
    unfolding moveOutside_def Let_def by (simp only: X nx if_True split_conv)
  have first_y: "\<not> ?ox \<le> ?oy \<Longrightarrow>
      moveOutside a b = (ay, \<lparr>displacement.x = 0, displacement.y = my\<rparr>)"
    unfolding moveOutside_def Let_def by (simp only: Y ny if_False split_conv)
  let ?tx = "if box.x a + box.width a / 2 < box.x b + box.width b / 2
             then box.x b - box.width a - 1 else box.x b + box.width b + 1"
  let ?ty = "if box.y a + box.height a / 2 \<le> box.y b + box.height b / 2
             then box.y b - box.height a - 1 else box.y b + box.height b + 1"
  have ax: "ax = a\<lparr>box.x := ?tx\<rparr>" and mx: "mx = ?tx - box.x a"
    using X moveOutsideX_hit[OF assms] by (simp_all add: Let_def)
  have ay: "ay = a\<lparr>box.y := ?ty\<rparr>" and my: "my = ?ty - box.y a"
    using Y moveOutsideY_hit[OF assms] by (simp_all add: Let_def)
  show ?thesis
  proof (cases "?ox \<le> ?oy")
    case True
    show ?thesis
      unfolding if_P[OF True] Let_def first_x[OF True] ax mx by (rule refl)
  next
    case False
    show ?thesis
      unfolding if_not_P[OF False] Let_def first_y[OF False] ay my by (rule refl)
  qed
qed

theorem C2_moveOutside_witness:
  "overlaps cornerActor cornerBox \<and>
   box.x (fst (moveOutside cornerActor cornerBox)) = 4 \<and>
   box.y (fst (moveOutside cornerActor cornerBox)) = 10 \<and>
   snd (moveOutside cornerActor cornerBox) = \<lparr>displacement.x = - 6, displacement.y = 0\<rparr>"
  using C2_moveOutside_first_axis_only [of cornerActor cornerBox]
  by (simp add: cornerActor_def cornerBox_def newActor_def overlaps_def overlapsX_def
        overlapsY_def)

text \<open>
  The claim as stated fails: at the corner overlap the Y position is not set at all (the
  X correction has separated the boxes), and for equal centres the Y axis moves the
  actor to the top of the obstacle, not below it.
\<close>

theorem C2_moveOutside_counterexample:
  "overlaps cornerActor cornerBox \<and>
   box.y (fst (moveOutside cornerActor cornerBox)) \<noteq>
     (if box.y cornerActor + box.height cornerActor / 2 < box.y cornerBox + box.height cornerBox / 2
      then box.y cornerBox - box.height cornerActor - 1
      else box.y cornerBox + box.height cornerBox + 1) \<and>
   overlaps wideActor wideBox \<and>
   box.y (fst (moveOutside wideActor wideBox)) \<noteq>
     (if box.y wideActor + box.height wideActor / 2 < box.y wideBox + box.height wideBox / 2
      then box.y wideBox - box.height wideActor - 1
      else box.y wideBox + box.height wideBox + 1)"
  by (simp add: cornerActor_def cornerBox_def wideActor_def wideBox_def newActor_def
        overlaps_def overlapsX_def overlapsY_def moveOutside_def moveOutsideX_def
        moveOutsideY_def Let_def)

subsection \<open>The standing test of the per-obstacle resolution\<close>

lemma moveOutside_frame:
  "GRAVITY (fst (moveOutside a b)) = GRAVITY a"
  "lastX (fst (moveOutside a b)) = lastX a"
  "box.width (fst (moveOutside a b)) = box.width a"
  "box.height (fst (moveOutside a b)) = box.height a"
  "inAir (fst (moveOutside a b)) = inAir a"
  "numJumps (fst (moveOutside a b)) = numJumps a"
  "fallLeft (fst (moveOutside a b)) = fallLeft a"
  "jumpDirection (fst (moveOutside a b)) = jumpDirection a"
  by (simp_all add: moveOutside_def moveOutsideX_def moveOutsideY_def Let_def split_beta)

lemma stopFalling_frame:
  "box.x (stopFalling a) = box.x a"
  "box.y (stopFalling a) = box.y a"
  "GRAVITY (stopFalling a) = GRAVITY a"
  by (simp_all add: stopFalling_def Let_def)

lemma collideSolidBox_gravity:
  assumes "GRAVITY a"
  shows "collision.falling (snd (collideSolidBox a b)) =
           (\<not> standingOn
                ((if overlaps a b then fst (moveOutside a b) else a)\<lparr>box.x := lastX a\<rparr>) b)"
    and "box.x (fst (collideSolidBox a b)) =
           box.x (if overlaps a b then fst (moveOutside a b) else a)"
    and "collision.collided (snd (collideSolidBox a b)) = overlaps a b"
  using assms
  by (simp_all add: collideSolidBox_def Let_def split_beta moveOutside_frame stopFalling_frame)

text \<open>
  C3. With GRAVITY enabled, \<^verbatim>\<open>_collideSolidBox\<close> evaluates the standing test on the
  actor (as it is after the overlap correction) with \<open>x\<close> replaced by \<open>lastX\<close>, and the
  actor it returns has the \<open>x\<close> it had before the test. Standing holds exactly when the
  horizontal ranges overlap and \<^verbatim>\<open>almostEqual\<close> holds of the actor's bottom edge and the
  obstacle's top edge with tolerance 1, that is when they are at most 1 pixel apart.
\<close>

theorem C3_standing_test_at_lastX:
  assumes "GRAVITY a"
  shows "(let a1 = (if overlaps a b then fst (moveOutside a b) else a)
          in (\<not> collision.falling (snd (collideSolidBox a b))) =
               standingOn (a1\<lparr>box.x := lastX a\<rparr>) b \<and>
             standingOn (a1\<lparr>box.x := lastX a\<rparr>) b =
               (lastX a + box.width a \<ge> box.x b \<and> box.x b + box.width b \<ge> lastX a \<and>
                \<bar>(box.y a1 + box.height a) - box.y b\<bar> \<le> 1) \<and>
             box.x (fst (collideSolidBox a b)) = box.x a1) \<and>
         standingOn a b =
           (overlapsX a b \<and> almostEqual (box.y a + box.height a) (box.y b) 1) \<and>
         standingOn a b =
           (overlapsX a b \<and> \<bar>(box.y a + box.height a) - box.y b\<bar> \<le> 1)"
proof -
  have st: "standingOn s b =
      (box.x s + box.width s \<ge> box.x b \<and> box.x b + box.width b \<ge> box.x s \<and>
       \<bar>(box.y s + box.height s) - box.y b\<bar> \<le> 1)" for s
    by (simp add: standingOn_def overlapsX_def almostEqual_def)
  have "standingOn a b = (overlapsX a b \<and> almostEqual (box.y a + box.height a) (box.y b) 1)"
    by (simp add: standingOn_def)
  then show ?thesis
    unfolding Let_def collideSolidBox_gravity[OF assms] st
    by (auto simp: moveOutside_frame overlapsX_def almostEqual_def)
qed

theorem C3_standing_test_witness:
  "GRAVITY jumpingActor \<and>
   collision.falling (snd (collideSolidBox jumpingActor wallBox)) \<and>
   box.x (fst (collideSolidBox jumpingActor wallBox)) = 95 \<and>
   standingOn (fst (moveOutside jumpingActor wallBox)) wallBox"
  using C3_standing_test_at_lastX [of jumpingActor wallBox]
  by (simp add: jumpingActor_def wallBox_def newActor_def overlaps_def overlapsX_def
        overlapsY_def moveOutside_def moveOutsideX_def moveOutsideY_def Let_def
        standingOn_def almostEqual_def)

subsection \<open>Aggregation over an obstacle set\<close>

lemma collideSolidBox_collided:
  "collision.collided (snd (collideSolidBox a b)) = overlaps a b"
  by (simp add: collideSolidBox_def Let_def split_beta)

lemma collideItems_actor:
  "fst (collideItems a items f c) = fst (collideItems a items f' c')"
  by (induction items arbitrary: a f c f' c') (simp_all add: split_beta)

lemma collideItems_collided:
  "snd (snd (collideItems a items f c)) =
     (c \<or> (\<exists>(s, b) \<in> set (visits a items). overlaps s b))"
  by (induction items arbitrary: a f c) (auto simp: split_beta collideSolidBox_collided)

lemma collideItems_falling:
  "fst (snd (collideItems a items f c)) =
     (f \<and> (\<forall>(s, b) \<in> set (visits a items). collision.falling (snd (collideSolidBox s b))))"
  by (induction items arbitrary: a f c) (auto simp: split_beta)


lemma getAllRows_succeeds:
  "(\<exists>items. getAllRows h rows = Inr items) = (\<forall>row \<in> set rows. h \<le> length row)"
proof (induction rows)
  case Nil
  show ?case by simp
next
  case (Cons row rows)
  show ?case
  proof (cases "h \<le> length row")
    case False
    then show ?thesis by (simp add: getAllRow_def)
  next
    case True
    then obtain r where r: "getAllRow h row = Inr r" by (simp add: getAllRow_def)
    show ?thesis
    proof (cases "getAllRows h rows")
      case (Inl e)
      with Cons.IH r True show ?thesis by auto
    next
      case (Inr rs)
      with Cons.IH r True show ?thesis by auto
    qed
  qed
qed

lemma getAll_succeeds:
  "(\<exists>items. getAll grid = Inr items) =
     (\<forall>row \<in> set grid. (case grid of [] \<Rightarrow> 0 | row0 # _ \<Rightarrow> length row0) \<le> length row)"
  unfolding getAll_def by (rule getAllRows_succeeds)

lemma collideSolid_TileMap_fails:
  "getAll grid = Inl e \<Longrightarrow> collideSolid w a (TileMap grid) = Inl e"
  by (simp add: collideSolid_def collideSolidLoop_def Let_def)

text \<open>
  C4, as the code has it. The obstacles of a Collection are its items; those of a
  TileMap are the cells that are not null, row by row, provided no row is shorter than
  the first one (otherwise \<^verbatim>\<open>getAll\<close> yields undefined entries and \<^verbatim>\<open>collideSolid\<close>
  fails with a TypeError). For such an obstacle set \<^verbatim>\<open>collideSolid\<close> returns true
  exactly when some obstacle overlapped the actor when it was visited; the falling flag
  is the conjunction of its seed and of the per-obstacle falling results, the seed being
  GRAVITY and not (resting exactly on the world floor with STAY_IN_WORLD); and
  \<^verbatim>\<open>startFalling\<close> is applied after the loop exactly when that flag is true. For a
  single Box, \<^verbatim>\<open>collideSolid\<close> returns true exactly when the Box overlaps the actor.
\<close>

theorem C4_collideSolid_aggregation:
  "(collideWith = Collection items \<or>
      (collideWith = TileMap grid \<and> getAll grid = Inr items) \<longrightarrow>
     (let seed = (GRAVITY a \<and>
                (box.y a + box.height a \<noteq> world.height w \<or> \<not> STAY_IN_WORLD a));
          fallingFlag = (seed \<and> (\<forall>(s, b) \<in> set (visits a items).
                           collision.falling (snd (collideSolidBox s b))));
          collidedFlag = (\<exists>(s, b) \<in> set (visits a items). overlaps s b);
          a1 = fst (collideItems a items seed False)
      in collideSolidLoop w a collideWith = Inr (a1, fallingFlag, collidedFlag) \<and>
         collideSolid w a collideWith =
           Inr (if fallingFlag then startFalling a1 else a1, collidedFlag))) \<and>
   (\<exists>items'. getAll grid = Inr items') =
     (\<forall>row \<in> set grid. (case grid of [] \<Rightarrow> 0 | row0 # _ \<Rightarrow> length row0) \<le> length row) \<and>
   (getAll grid = Inl TypeError \<longrightarrow> collideSolid w a (TileMap grid) = Inl TypeError) \<and>
   (case collideSolid w a (SingleBox b0) of
      Inl e \<Rightarrow> False
    | Inr (a', c) \<Rightarrow> c = overlaps a b0)"
proof -
  define seed where
    "seed = (GRAVITY a \<and> (box.y a + box.height a \<noteq> world.height w \<or> \<not> STAY_IN_WORLD a))"
  define F where
    "F = (seed \<and> (\<forall>(s, b) \<in> set (visits a items).
                     collision.falling (snd (collideSolidBox s b))))"
  define C where "C = (\<exists>(s, b) \<in> set (visits a items). overlaps s b)"
  define a1 where "a1 = fst (collideItems a items seed False)"
  have agg: "collideSolidLoop w a collideWith = Inr (a1, F, C) \<and>
             collideSolid w a collideWith = Inr (if F then startFalling a1 else a1, C)"
    if h: "collideWith = Collection items \<or>
           (collideWith = TileMap grid \<and> getAll grid = Inr items)"
  proof -
    have "collideSolidLoop w a collideWith = Inr (collideItems a items seed False)"
      using h by (auto simp: collideSolidLoop_def Let_def seed_def)
    moreover have "collideItems a items seed False = (a1, F, C)"
      using collideItems_falling[of a items seed False]
            collideItems_collided[of a items seed False]
      by (simp add: prod_eq_iff a1_def F_def C_def)
    ultimately have loop: "collideSolidLoop w a collideWith = Inr (a1, F, C)"
      by simp
    have "collideSolid w a collideWith = Inr (if F then startFalling a1 else a1, C)"
      unfolding collideSolid_def loop by simp
    with loop show ?thesis by simp
  qed
  have single: "(case collideSolid w a (SingleBox b0) of
                   Inl e \<Rightarrow> False | Inr (a', c) \<Rightarrow> c = overlaps a b0)"
    by (simp add: collideSolid_def collideSolidLoop_def Let_def split_beta
          collideSolidBox_collided)
  have fails: "getAll grid = Inl TypeError \<longrightarrow> collideSolid w a (TileMap grid) = Inl TypeError"
    by (simp add: collideSolid_TileMap_fails)
  show ?thesis
    using agg single fails getAll_succeeds[of grid]
    unfolding Let_def seed_def[symmetric] F_def[symmetric] C_def[symmetric] a1_def[symmetric]
    by blast
qed

theorem C4_collideSolid_witness:
  "collideSolid exampleWorld ledgeActor (Collection [platformBox, sideWall]) =
     Inr (ledgeActor\<lparr>box.x := 99,
                     jumpDirection := \<lparr>momentum.right = True, momentum.left = False\<rparr>,
                     inAir := True\<rparr>, True) \<and>
   collideSolid exampleWorld ledgeActor (Collection [platformBox, supportBox]) =
     Inr (ledgeActor\<lparr>box.y := 79\<rparr>, True) \<and>
   collideSolid exampleWorld floorActor (Collection [platformBox, wallBox]) =
     Inr (floorActor, False) \<and>
   getAll [[Some platformBox, None], [None, Some sideWall]] = Inr [platformBox, sideWall] \<and>
   collideSolid exampleWorld ledgeActor
       (TileMap [[Some platformBox, None], [None, Some sideWall]]) =
     Inr (ledgeActor\<lparr>box.x := 99,
                     jumpDirection := \<lparr>momentum.right = True, momentum.left = False\<rparr>,
                     inAir := True\<rparr>, True) \<and>
   getAll [[Some platformBox, None], [Some sideWall]] = Inl TypeError \<and>
   collideSolid exampleWorld ledgeActor (TileMap [[Some platformBox, None], [Some sideWall]]) =
     Inl TypeError"
  using C4_collideSolid_aggregation
          [of "Collection [platformBox, sideWall]" "[platformBox, sideWall]" "[]"
              ledgeActor exampleWorld wallBox]
        C4_collideSolid_aggregation
          [of "Collection [platformBox, supportBox]" "[platformBox, supportBox]" "[]"
              ledgeActor exampleWorld wallBox]
        C4_collideSolid_aggregation
          [of "Collection [platformBox, wallBox]" "[platformBox, wallBox]" "[]"
              floorActor exampleWorld wallBox]
        C4_collideSolid_aggregation
          [of "TileMap [[Some platformBox, None], [None, Some sideWall]]"
              "[platformBox, sideWall]" "[[Some platformBox, None], [None, Some sideWall]]"
              ledgeActor exampleWorld wallBox]
        C4_collideSolid_aggregation
          [of "TileMap [[Some platformBox, None], [Some sideWall]]"
              "[]" "[[Some platformBox, None], [Some sideWall]]"
              ledgeActor exampleWorld wallBox]
  by (simp add: ledgeActor_def floorActor_def platformBox_def sideWall_def supportBox_def
        wallBox_def exampleWorld_def newActor_def
        collideSolidBox_def overlaps_def overlapsX_def overlapsY_def moveOutside_def
        moveOutsideX_def moveOutsideY_def standingOn_def almostEqual_def startFalling_def
        stopFalling_def getAll_def getAllRow_def Let_def)

text \<open>
  The claim as stated fails: without GRAVITY the falling flag is seeded false. Here no
  obstacle supports the actor and it is not on the world floor, yet \<^verbatim>\<open>startFalling\<close>
  is not applied.
\<close>

theorem C4_collideSolid_counterexample:
  "\<not> GRAVITY cornerActor \<and>
   box.y cornerActor + box.height cornerActor \<noteq> world.height exampleWorld \<and>
   collision.falling (snd (collideSolidBox cornerActor wallBox)) \<and>
   collideSolid exampleWorld cornerActor (Collection [wallBox]) = Inr (cornerActor, False) \<and>
   startFalling cornerActor \<noteq> cornerActor"
  by (simp add: cornerActor_def wallBox_def exampleWorld_def newActor_def
        collideSolid_def collideSolidLoop_def collideSolidBox_def overlaps_def
        overlapsX_def overlapsY_def startFalling_def Let_def)

text \<open>
  The branch for a single Box assigns \<^verbatim>\<open>falling = result.falling\<close> and so drops the
  seed, unlike the loop. An actor resting on the world floor that is given a single Box
  it does not stand on is set falling; given the same Box in a Collection it is not.
\<close>

lemma collideSolid_single_box_drops_seed:
  "box.y floorActor + box.height floorActor = world.height exampleWorld \<and>
   collideSolid exampleWorld floorActor (SingleBox wallBox) =
     Inr (floorActor\<lparr>inAir := True\<rparr>, False) \<and>
   collideSolid exampleWorld floorActor (Collection [wallBox]) = Inr (floorActor, False)"
  by (simp add: floorActor_def wallBox_def exampleWorld_def newActor_def collideSolid_def
        collideSolidLoop_def collideSolidBox_def overlaps_def overlapsX_def overlapsY_def
        standingOn_def almostEqual_def startFalling_def Let_def)

subsection \<open>The world clamp\<close>

text \<open>
  C5, as the code has it. With STAY_IN_WORLD, \<^verbatim>\<open>stayInWorld\<close> clamps each axis on its
  own: a negative coordinate becomes 0, else a far edge beyond the world is moved onto
  the world's edge. If the bottom clamp fires, that is if \<open>y\<close> is not negative and
  \<open>y + height > world.height\<close> before clamping, then afterwards \<open>inAir\<close> is false,
  \<open>numJumps\<close> is 0 and \<open>yVelocity \<le> 0\<close>.
\<close>

theorem C5_stayInWorld_clamp:
  assumes "STAY_IN_WORLD a"
  shows "box.x (stayInWorld w a) =
           (if box.x a < 0 then 0
            else if box.x a + box.width a > world.width w then world.width w - box.width a
            else box.x a) \<and>
         box.y (stayInWorld w a) =
           (if box.y a < 0 then 0
            else if box.y a + box.height a > world.height w then world.height w - box.height a
            else box.y a) \<and>
         (\<not> box.y a < 0 \<and> box.y a + box.height a > world.height w \<longrightarrow>
            \<not> inAir (stayInWorld w a) \<and> numJumps (stayInWorld w a) = 0 \<and>
            yVelocity (stayInWorld w a) \<le> 0)"
  using assms by (simp add: stayInWorld_def stopFalling_def Let_def)

theorem C5_stayInWorld_witness:
  "STAY_IN_WORLD sunkActor \<and>
   box.y sunkActor + box.height sunkActor > world.height exampleWorld \<and>
   box.x (stayInWorld exampleWorld sunkActor) = 10 \<and>
   box.y (stayInWorld exampleWorld sunkActor) = 580 \<and>
   \<not> inAir (stayInWorld exampleWorld sunkActor) \<and>
   numJumps (stayInWorld exampleWorld sunkActor) = 0 \<and>
   yVelocity (stayInWorld exampleWorld sunkActor) \<le> 0"
  using C5_stayInWorld_clamp [of sunkActor exampleWorld]
  by (simp add: sunkActor_def exampleWorld_def newActor_def)

text \<open>
  The claim as stated fails: the bottom clamp is the \<^verbatim>\<open>else\<close> branch of the top clamp,
  so with \<open>y < 0\<close> the actor is not landed although \<open>y + height > world.height\<close>; nor
  is such an actor inside the world afterwards.
\<close>

theorem C5_stayInWorld_counterexample:
  "STAY_IN_WORLD tallActor \<and>
   box.y tallActor + box.height tallActor > world.height exampleWorld \<and>
   inAir (stayInWorld exampleWorld tallActor) \<and>
   yVelocity (stayInWorld exampleWorld tallActor) > 0 \<and>
   box.y (stayInWorld exampleWorld tallActor) + box.height (stayInWorld exampleWorld tallActor)
     > world.height exampleWorld"
  by (simp add: tallActor_def exampleWorld_def newActor_def stayInWorld_def Let_def)

subsection \<open>Walking off a ledge\<close>

lemma moveOutside_MOVEAMOUNT:
  "MOVEAMOUNT (fst (moveOutside a b)) = MOVEAMOUNT a"
  by (simp add: moveOutside_def moveOutsideX_def moveOutsideY_def Let_def split_beta)

lemma collideSolidBox_falling_frame:
  assumes "collision.falling (snd (collideSolidBox a b))"
  shows "inAir (fst (collideSolidBox a b)) = inAir a \<and>
         numJumps (fst (collideSolidBox a b)) = numJumps a \<and>
         fallLeft (fst (collideSolidBox a b)) = fallLeft a \<and>
         GRAVITY (fst (collideSolidBox a b)) = GRAVITY a \<and>
         MOVEAMOUNT (fst (collideSolidBox a b)) = MOVEAMOUNT a"
proof -
  define a1 where "a1 = (if overlaps a b then fst (moveOutside a b) else a)"
  have a1: "inAir a1 = inAir a" "numJumps a1 = numJumps a" "fallLeft a1 = fallLeft a"
           "GRAVITY a1 = GRAVITY a" "MOVEAMOUNT a1 = MOVEAMOUNT a"
    unfolding a1_def by (simp_all add: moveOutside_frame moveOutside_MOVEAMOUNT)
  have cs: "collideSolidBox a b =
     (if GRAVITY a1 then
           (let x = box.x a1;
                this2 = a1\<lparr>box.x := lastX a1\<rparr>;
                (this3, falling) =
                  (if standingOn this2 b
                   then (stopFalling this2, False)
                   else (this2, True));
                this4 = this3\<lparr>box.x := x\<rparr>;
                this5 =
                  (if falling \<and> overlaps a b then
                     (if almostEqual (box.y this4) (box.y b + box.height b) 1 then
                        (let t = (if yAcceleration this4 < 0
                                  then this4\<lparr>yAcceleration := 0\<rparr> else this4)
                         in if yVelocity t < 0 then t\<lparr>yVelocity := 0\<rparr> else t)
                      else
                        this4\<lparr>jumpDirection :=
                          (jumpDirection this4)\<lparr>momentum.left := False,
                                                  momentum.right := False\<rparr>\<rparr>)
                   else this4)
            in (this5, \<lparr>collision.falling = falling, collision.collided = overlaps a b\<rparr>))
         else (a1, \<lparr>collision.falling = True, collision.collided = overlaps a b\<rparr>))"
    unfolding collideSolidBox_def a1_def by (simp add: Let_def)
  show ?thesis
  proof (cases "GRAVITY a1")
    case False
    then show ?thesis using a1 by (simp add: cs)
  next
    case True
    with assms have ns: "\<not> standingOn (a1\<lparr>box.x := lastX a1\<rparr>) b"
      by (simp add: cs Let_def split: if_splits)
    show ?thesis using True ns a1 by (simp add: cs Let_def)
  qed
qed

lemma collideItems_falling_frame:
  "fst (snd (collideItems a items f c)) \<Longrightarrow>
     inAir (fst (collideItems a items f c)) = inAir a \<and>
     numJumps (fst (collideItems a items f c)) = numJumps a \<and>
     fallLeft (fst (collideItems a items f c)) = fallLeft a \<and>
     GRAVITY (fst (collideItems a items f c)) = GRAVITY a \<and>
     MOVEAMOUNT (fst (collideItems a items f c)) = MOVEAMOUNT a"
proof (induction items arbitrary: a f c)
  case Nil
  then show ?case by simp
next
  case (Cons b bs)
  obtain a1 r where r: "collideSolidBox a b = (a1, r)" by (cases "collideSolidBox a b")
  let ?f = "if \<not> collision.falling r then False else f"
  let ?c = "if collision.collided r then True else c"
  have step: "collideItems a (b # bs) f c = collideItems a1 bs ?f ?c"
    by (simp add: r)
  from Cons.prems have fin: "fst (snd (collideItems a1 bs ?f ?c))"
    by (simp only: step)
  then have "?f" unfolding collideItems_falling[of a1 bs ?f ?c] by (rule conjunct1)
  then have "collision.falling (snd (collideSolidBox a b))"
    by (simp add: r split: if_splits)
  from collideSolidBox_falling_frame[OF this] have
    "inAir a1 = inAir a \<and> numJumps a1 = numJumps a \<and> fallLeft a1 = fallLeft a \<and>
     GRAVITY a1 = GRAVITY a \<and> MOVEAMOUNT a1 = MOVEAMOUNT a"
    by (simp add: r)
  with Cons.IH[OF fin] show ?case by (simp only: step)
qed


lemma ambientAcceleration_airborne:
  assumes "GRAVITY s" and "inAir s"
  shows "xVelocity (ambientAcceleration s) =
           (if momentum.left (jumpDirection s) then - MOVEAMOUNT s
            else if momentum.right (jumpDirection s) then MOVEAMOUNT s
            else xVelocity s)"
  using assms by (simp add: ambientAcceleration_def isInAir_def Let_def)

lemma startFalling_grounded:
  assumes "\<not> inAir a" and "fallLeft a = Some fl"
  shows "startFalling a =
           a\<lparr>jumpDirection := \<lparr>momentum.right = \<not> fl, momentum.left = fl\<rparr>, inAir := True\<rparr>"
  using assms by (simp add: startFalling_def Let_def)

text \<open>
  C6. For a grounded actor with recorded horizontal motion (\<open>fallLeft\<close> is not null),
  \<^verbatim>\<open>startFalling\<close> sets \<open>jumpDirection\<close> to the direction of that motion and \<open>inAir\<close> to
  true and leaves \<open>numJumps\<close>; with GRAVITY the next \<^verbatim>\<open>ambientAcceleration\<close> sets
  \<open>xVelocity\<close> to \<open>- MOVEAMOUNT\<close> or \<open>MOVEAMOUNT\<close> accordingly, which is not zero unless
  \<open>MOVEAMOUNT\<close> is. Every airborne step with GRAVITY sets \<open>xVelocity\<close> from
  \<open>jumpDirection\<close> in this way. And when \<^verbatim>\<open>collideSolid\<close> finds such an actor supported
  by no obstacle of a Collection (its falling flag is true after the loop), the actor it
  returns is in that state.
\<close>

theorem C6_ledge_walk_off:
  assumes "\<not> inAir a" and "fallLeft a = Some fl"
  shows "jumpDirection (startFalling a) = \<lparr>momentum.right = \<not> fl, momentum.left = fl\<rparr> \<and>
         inAir (startFalling a) \<and>
         numJumps (startFalling a) = numJumps a \<and>
         (GRAVITY a \<longrightarrow>
            xVelocity (ambientAcceleration (startFalling a)) =
              (if fl then - MOVEAMOUNT a else MOVEAMOUNT a)) \<and>
         (GRAVITY a \<and> MOVEAMOUNT a \<noteq> 0 \<longrightarrow>
            xVelocity (ambientAcceleration (startFalling a)) \<noteq> 0) \<and>
         (\<forall>s. GRAVITY s \<and> inAir s \<longrightarrow>
            xVelocity (ambientAcceleration s) =
              (if momentum.left (jumpDirection s) then - MOVEAMOUNT s
               else if momentum.right (jumpDirection s) then MOVEAMOUNT s
               else xVelocity s)) \<and>
         (\<forall>w items a1 c.
            GRAVITY a \<and> collideSolidLoop w a (Collection items) = Inr (a1, True, c) \<longrightarrow>
              collideSolid w a (Collection items) = Inr (startFalling a1, c) \<and>
              jumpDirection (startFalling a1) = \<lparr>momentum.right = \<not> fl, momentum.left = fl\<rparr> \<and>
              inAir (startFalling a1) \<and>
              numJumps (startFalling a1) = numJumps a \<and>
              xVelocity (ambientAcceleration (startFalling a1)) =
                (if fl then - MOVEAMOUNT a else MOVEAMOUNT a))"
proof -
  have own: "GRAVITY s \<Longrightarrow> \<not> inAir s \<Longrightarrow> fallLeft s = Some fl \<Longrightarrow>
      jumpDirection (startFalling s) = \<lparr>momentum.right = \<not> fl, momentum.left = fl\<rparr> \<and>
      inAir (startFalling s) \<and> numJumps (startFalling s) = numJumps s \<and>
      xVelocity (ambientAcceleration (startFalling s)) =
        (if fl then - MOVEAMOUNT s else MOVEAMOUNT s)" for s
    by (simp add: startFalling_grounded ambientAcceleration_airborne)
  have p1: "jumpDirection (startFalling a) = \<lparr>momentum.right = \<not> fl, momentum.left = fl\<rparr> \<and>
         inAir (startFalling a) \<and> numJumps (startFalling a) = numJumps a"
    using assms by (simp add: startFalling_grounded)
  have p2: "GRAVITY a \<longrightarrow> xVelocity (ambientAcceleration (startFalling a)) =
              (if fl then - MOVEAMOUNT a else MOVEAMOUNT a)"
    using own[of a] assms by simp
  have p3: "GRAVITY a \<and> MOVEAMOUNT a \<noteq> 0 \<longrightarrow>
            xVelocity (ambientAcceleration (startFalling a)) \<noteq> 0"
    using p2 by simp
  have p4: "\<forall>s. GRAVITY s \<and> inAir s \<longrightarrow>
            xVelocity (ambientAcceleration s) =
              (if momentum.left (jumpDirection s) then - MOVEAMOUNT s
               else if momentum.right (jumpDirection s) then MOVEAMOUNT s
               else xVelocity s)"
    by (simp add: ambientAcceleration_airborne)
  have p5: "collideSolid w a (Collection items) = Inr (startFalling a1, c) \<and>
              jumpDirection (startFalling a1) = \<lparr>momentum.right = \<not> fl, momentum.left = fl\<rparr> \<and>
              inAir (startFalling a1) \<and>
              numJumps (startFalling a1) = numJumps a \<and>
              xVelocity (ambientAcceleration (startFalling a1)) =
                (if fl then - MOVEAMOUNT a else MOVEAMOUNT a)"
    if g: "GRAVITY a" and loop: "collideSolidLoop w a (Collection items) = Inr (a1, True, c)"
    for w items a1 c
  proof -
    define seed where
      "seed = (GRAVITY a \<and> (box.y a + box.height a \<noteq> world.height w \<or> \<not> STAY_IN_WORLD a))"
    from loop have ci: "collideItems a items seed False = (a1, True, c)"
      by (simp add: collideSolidLoop_def Let_def seed_def)
    then have "fst (snd (collideItems a items seed False))" by simp
    from collideItems_falling_frame[OF this] ci
    have fr: "inAir a1 = inAir a" "numJumps a1 = numJumps a" "fallLeft a1 = fallLeft a"
             "GRAVITY a1 = GRAVITY a" "MOVEAMOUNT a1 = MOVEAMOUNT a"
      by simp_all
    have "collideSolid w a (Collection items) = Inr (startFalling a1, c)"
      by (simp add: collideSolid_def loop)
    with own[of a1] fr g assms show ?thesis by simp
  qed
  show ?thesis using p1 p2 p3 p4 p5 by blast
qed

theorem C6_ledge_walk_off_witness:
  "\<not> inAir ledgeActor \<and> fallLeft ledgeActor = Some False \<and> GRAVITY ledgeActor \<and>
   collideSolidLoop exampleWorld ledgeActor (Collection [platformBox]) =
     Inr (ledgeActor, True, False) \<and>
   collideSolid exampleWorld ledgeActor (Collection [platformBox]) =
     Inr (startFalling ledgeActor, False) \<and>
   jumpDirection (startFalling ledgeActor) = \<lparr>momentum.right = True, momentum.left = False\<rparr> \<and>
   inAir (startFalling ledgeActor) \<and>
   numJumps (startFalling ledgeActor) = 0 \<and>
   xVelocity (ambientAcceleration (startFalling ledgeActor)) = 400"
  using C6_ledge_walk_off [of ledgeActor False]
  by (simp add: ledgeActor_def platformBox_def exampleWorld_def newActor_def
        collideSolidLoop_def collideSolidBox_def overlaps_def overlapsX_def overlapsY_def
        standingOn_def almostEqual_def Let_def)

subsection \<open>Velocity damping\<close>

text \<open>
  C7, as the code has it. "Within 0.0001 of zero" is \<^verbatim>\<open>almostEqual(v, 0, 0.0001)\<close>.
  With a damping factor \<open>f\<close> and \<open>xVelocity\<close> not within 0.0001 of zero, \<open>xVelocity\<close> is
  multiplied by \<open>1 - f * dt\<close>, and so is \<open>yVelocity\<close> when GRAVITY is off and
  \<open>yVelocity\<close> is not within 0.0001 of zero; otherwise \<open>yVelocity\<close> is unchanged. With a
  damping factor and \<open>xVelocity\<close> within 0.0001 of zero, \<open>xVelocity\<close> is set to zero,
  and \<open>yVelocity\<close> is unchanged when GRAVITY is on. Without a damping factor
  \<open>xVelocity\<close> is set to zero, and \<open>yVelocity\<close> is set to zero when GRAVITY is off and
  unchanged when it is on.
\<close>

theorem C7_dampVelocity:
  "(DAMPING_FACTOR a = Some f \<and> \<not> almostEqual (xVelocity a) 0 (1 / 10000) \<longrightarrow>
      xVelocity (dampVelocity dt a) = xVelocity a * (1 - f * dt) \<and>
      yVelocity (dampVelocity dt a) =
        (if \<not> GRAVITY a \<and> \<not> almostEqual (yVelocity a) 0 (1 / 10000)
         then yVelocity a * (1 - f * dt) else yVelocity a)) \<and>
   (DAMPING_FACTOR a = Some f \<and> almostEqual (xVelocity a) 0 (1 / 10000) \<longrightarrow>
      xVelocity (dampVelocity dt a) = 0 \<and>
      (GRAVITY a \<longrightarrow> yVelocity (dampVelocity dt a) = yVelocity a)) \<and>
   (DAMPING_FACTOR a = None \<longrightarrow>
      xVelocity (dampVelocity dt a) = 0 \<and>
      yVelocity (dampVelocity dt a) = (if GRAVITY a then yVelocity a else 0))"
  by (simp add: dampVelocity_def Let_def)

theorem C7_dampVelocity_witness:
  "DAMPING_FACTOR slidingActor = Some 1 \<and>
   \<not> almostEqual (xVelocity slidingActor) 0 (1 / 10000) \<and>
   xVelocity (dampVelocity (1 / 10) slidingActor) = 90 \<and>
   DAMPING_FACTOR gravityActor = None \<and>
   xVelocity (dampVelocity (1 / 10) gravityActor) = 0 \<and>
   yVelocity (dampVelocity (1 / 10) gravityActor) = yVelocity gravityActor"
  using C7_dampVelocity [of slidingActor 1 "1 / 10"] C7_dampVelocity [of gravityActor 1 "1 / 10"]
  by (simp add: slidingActor_def gravityActor_def newActor_def almostEqual_def)

text \<open>
  The claim as stated fails with a damping factor: a velocity within 0.0001 of zero is
  not multiplied. Here the vertical velocity of the first actor is left as it is, and
  the horizontal velocity of the second is set to zero.
\<close>

theorem C7_dampVelocity_counterexample:
  "DAMPING_FACTOR slidingActor = Some 1 \<and> \<not> GRAVITY slidingActor \<and>
   yVelocity (dampVelocity (1 / 10) slidingActor) \<noteq>
     yVelocity slidingActor * (1 - 1 * (1 / 10)) \<and>
   DAMPING_FACTOR creepingActor = Some 1 \<and>
   xVelocity (dampVelocity (1 / 10) creepingActor) \<noteq>
     xVelocity creepingActor * (1 - 1 * (1 / 10))"
  by (simp add: slidingActor_def creepingActor_def newActor_def dampVelocity_def
        almostEqual_def Let_def)

text \<open>
  With a damping factor, GRAVITY off and \<open>xVelocity\<close> within 0.0001 of zero, the code
  falls through to the branch that sets both velocities to zero, whatever \<open>yVelocity\<close>
  is.
\<close>

lemma dampVelocity_vertical_hard_zero:
  "DAMPING_FACTOR driftingActor = Some 1 \<and> yVelocity driftingActor = 400 \<and>
   yVelocity (dampVelocity (1 / 10) driftingActor) = 0"
  by (simp add: driftingActor_def newActor_def dampVelocity_def almostEqual_def Let_def)

subsection \<open>The integrator\<close>

lemma diagonal_magnitude_pos:
  fixes u v :: real
  assumes "u \<noteq> 0"
  shows "0 < sqrt (u * u + v * v)"
proof -
  have "0 < u\<^sup>2" using assms by simp
  moreover have "0 \<le> v\<^sup>2" by simp
  ultimately have "0 < u\<^sup>2 + v\<^sup>2" by linarith
  then show ?thesis by (simp add: power2_eq_square)
qed

lemma limitDiagonalSpeed_rescales:
  assumes "xVelocity a \<noteq> 0" and "yVelocity a \<noteq> 0" and "\<not> GRAVITY a"
  shows "\<exists>a'. limitDiagonalSpeed a = Some a' \<and>
           xVelocity a' = xVelocity a *
              (max \<bar>xVelocity a\<bar> \<bar>yVelocity a\<bar> /
                 sqrt (xVelocity a * xVelocity a + yVelocity a * yVelocity a)) \<and>
           yVelocity a' = yVelocity a *
              (max \<bar>xVelocity a\<bar> \<bar>yVelocity a\<bar> /
                 sqrt (xVelocity a * xVelocity a + yVelocity a * yVelocity a))"
  using assms diagonal_magnitude_pos[OF assms(1), of "yVelocity a"]
  by (simp add: limitDiagonalSpeed_def divide_js_def Let_def)

lemma limitDiagonalSpeed_skips:
  assumes "xVelocity a = 0 \<or> yVelocity a = 0 \<or> GRAVITY a"
  shows "limitDiagonalSpeed a = Some a"
  using assms by (auto simp: limitDiagonalSpeed_def Let_def)

lemma limitDiagonalSpeed_total: "\<exists>a'. limitDiagonalSpeed a = Some a'"
proof (cases "xVelocity a \<noteq> 0 \<and> yVelocity a \<noteq> 0 \<and> \<not> GRAVITY a")
  case True
  then show ?thesis using limitDiagonalSpeed_rescales[of a] by blast
next
  case False
  then show ?thesis using limitDiagonalSpeed_skips[of a] by blast
qed

lemma rescaled_magnitude:
  fixes u v :: real
  assumes "u \<noteq> 0"
  shows "sqrt ((u * (max \<bar>u\<bar> \<bar>v\<bar> / sqrt (u * u + v * v)))\<^sup>2 +
               (v * (max \<bar>u\<bar> \<bar>v\<bar> / sqrt (u * u + v * v)))\<^sup>2) = max \<bar>u\<bar> \<bar>v\<bar>"
proof -
  define m where "m = max \<bar>u\<bar> \<bar>v\<bar>"
  define n where "n = sqrt (u * u + v * v)"
  define k where "k = m / n"
  have n: "0 < n" unfolding n_def by (rule diagonal_magnitude_pos[OF assms])
  have m: "0 \<le> m" unfolding m_def by simp
  have "0 \<le> u * u + v * v" by simp
  then have nn: "n * n = u * u + v * v" unfolding n_def by simp
  have kn: "k * n = m" unfolding k_def using n by simp
  have "(u * k)\<^sup>2 + (v * k)\<^sup>2 = (u * u + v * v) * (k * k)"
    by (simp add: power2_eq_square algebra_simps)
  also have "\<dots> = (k * n) * (k * n)" by (simp only: nn[symmetric] mult_ac)
  also have "\<dots> = m\<^sup>2" by (simp only: kn power2_eq_square)
  finally have "sqrt ((u * k)\<^sup>2 + (v * k)\<^sup>2) = sqrt (m\<^sup>2)" by simp
  also have "\<dots> = m" using m by simp
  finally show ?thesis unfolding k_def m_def n_def .
qed

text \<open>
  C8. Over the reals: when both velocity components are nonzero and GRAVITY is off, the
  rescale in \<^verbatim>\<open>move\<close> yields a velocity whose Euclidean magnitude is the larger of
  \<open>|vx|\<close> and \<open>|vy|\<close> before the rescale; when a component is zero or GRAVITY is on, the
  rescale is skipped.
\<close>

theorem C8_diagonal_speed_cap:
  "(xVelocity a \<noteq> 0 \<and> yVelocity a \<noteq> 0 \<and> \<not> GRAVITY a \<longrightarrow>
      (\<exists>a'. limitDiagonalSpeed a = Some a' \<and>
            sqrt ((xVelocity a')\<^sup>2 + (yVelocity a')\<^sup>2) = max \<bar>xVelocity a\<bar> \<bar>yVelocity a\<bar>)) \<and>
   (xVelocity a = 0 \<or> yVelocity a = 0 \<or> GRAVITY a \<longrightarrow> limitDiagonalSpeed a = Some a)"
proof (intro conjI impI)
  assume h: "xVelocity a \<noteq> 0 \<and> yVelocity a \<noteq> 0 \<and> \<not> GRAVITY a"
  then obtain a' where a': "limitDiagonalSpeed a = Some a'"
    and vx: "xVelocity a' = xVelocity a *
              (max \<bar>xVelocity a\<bar> \<bar>yVelocity a\<bar> /
                 sqrt (xVelocity a * xVelocity a + yVelocity a * yVelocity a))"
    and vy: "yVelocity a' = yVelocity a *
              (max \<bar>xVelocity a\<bar> \<bar>yVelocity a\<bar> /
                 sqrt (xVelocity a * xVelocity a + yVelocity a * yVelocity a))"
    using limitDiagonalSpeed_rescales[of a] by blast
  from h have "xVelocity a \<noteq> 0" by simp
  then have "sqrt ((xVelocity a')\<^sup>2 + (yVelocity a')\<^sup>2) = max \<bar>xVelocity a\<bar> \<bar>yVelocity a\<bar>"
    unfolding vx vy by (rule rescaled_magnitude)
  with a' show "\<exists>a'. limitDiagonalSpeed a = Some a' \<and>
            sqrt ((xVelocity a')\<^sup>2 + (yVelocity a')\<^sup>2) = max \<bar>xVelocity a\<bar> \<bar>yVelocity a\<bar>"
    by blast
next
  assume "xVelocity a = 0 \<or> yVelocity a = 0 \<or> GRAVITY a"
  then show "limitDiagonalSpeed a = Some a" by (rule limitDiagonalSpeed_skips)
qed

theorem C8_diagonal_speed_cap_witness:
  "xVelocity diagonalActor \<noteq> 0 \<and> yVelocity diagonalActor \<noteq> 0 \<and> \<not> GRAVITY diagonalActor \<and>
   (\<exists>a'. limitDiagonalSpeed diagonalActor = Some a' \<and>
         sqrt ((xVelocity a')\<^sup>2 + (yVelocity a')\<^sup>2) = 4) \<and>
   limitDiagonalSpeed gravityActor = Some gravityActor"
  using C8_diagonal_speed_cap [of diagonalActor] C8_diagonal_speed_cap [of gravityActor]
  by (simp add: diagonalActor_def gravityActor_def newActor_def)


lemma move_steps:
  "move w dt a =
     (case limitDiagonalSpeed
             (a\<lparr>xVelocity := xVelocity a + xAcceleration a * (dt / 2),
                yVelocity := yVelocity a + yAcceleration a * (dt / 2)\<rparr>) of
        None \<Rightarrow> None
      | Some a3 \<Rightarrow>
          Some (stayInWorld w
                 (a3\<lparr>box.x := box.x a3 + xVelocity a3 * dt,
                     box.y := box.y a3 + yVelocity a3 * dt,
                     xVelocity := xVelocity a3 + xAcceleration a3 * (dt / 2),
                     yVelocity := yVelocity a3 + yAcceleration a3 * (dt / 2)\<rparr>)))"
  by (simp add: move_def divide_js_def Let_def split: option.split)

lemma move_total: "\<exists>a'. move w dt a = Some a'"
proof -
  obtain a3 where "limitDiagonalSpeed
             (a\<lparr>xVelocity := xVelocity a + xAcceleration a * (dt / 2),
                yVelocity := yVelocity a + yAcceleration a * (dt / 2)\<rparr>) = Some a3"
    using limitDiagonalSpeed_total by blast
  then show ?thesis by (simp add: move_steps)
qed

lemma move_zero:
  "move w 0 a =
     (case limitDiagonalSpeed a of None \<Rightarrow> None | Some a' \<Rightarrow> Some (stayInWorld w a'))"
  by (simp add: move_steps split: option.split)

lemma stayInWorld_inside:
  assumes "\<not> STAY_IN_WORLD a \<or>
           (0 \<le> box.x a \<and> box.x a + box.width a \<le> world.width w \<and>
            0 \<le> box.y a \<and> box.y a + box.height a \<le> world.height w)"
  shows "stayInWorld w a = a"
  using assms by (auto simp: stayInWorld_def Let_def)

text \<open>
  C9, as the code has it. \<^verbatim>\<open>move\<close> divides by 2 and, when it rescales, by the
  magnitude \<open>sqrt (vx * vx + vy * vy)\<close> of a velocity whose components are both
  nonzero. Over the reals that magnitude is positive, so \<^verbatim>\<open>move\<close> never divides by
  zero, for any \<open>dt\<close>; what IEEE doubles do when the squares of very small components
  underflow to zero is outside the model and is not covered. When \<open>dt\<close> is zero the half accelerations and the thrust change nothing, and
  \<^verbatim>\<open>move\<close> is the diagonal rescale followed by the world clamp. It is a no-op when the
  rescale is skipped (GRAVITY is on or a velocity component is zero) and the clamp does
  not fire (STAY_IN_WORLD is off or the box is inside the world).
\<close>

theorem C9_move_zero_dt:
  "(\<exists>a'. move w dt a = Some a') \<and>
   move w 0 a =
     (case limitDiagonalSpeed a of None \<Rightarrow> None | Some a' \<Rightarrow> Some (stayInWorld w a')) \<and>
   ((GRAVITY a \<or> xVelocity a = 0 \<or> yVelocity a = 0) \<and>
    (\<not> STAY_IN_WORLD a \<or>
       (0 \<le> box.x a \<and> box.x a + box.width a \<le> world.width w \<and>
        0 \<le> box.y a \<and> box.y a + box.height a \<le> world.height w))
    \<longrightarrow> move w 0 a = Some a)"
proof (intro conjI impI)
  show "\<exists>a'. move w dt a = Some a'" by (rule move_total)
  show "move w 0 a =
     (case limitDiagonalSpeed a of None \<Rightarrow> None | Some a' \<Rightarrow> Some (stayInWorld w a'))"
    by (rule move_zero)
next
  assume h: "(GRAVITY a \<or> xVelocity a = 0 \<or> yVelocity a = 0) \<and>
    (\<not> STAY_IN_WORLD a \<or>
       (0 \<le> box.x a \<and> box.x a + box.width a \<le> world.width w \<and>
        0 \<le> box.y a \<and> box.y a + box.height a \<le> world.height w))"
  then have "limitDiagonalSpeed a = Some a"
    by (intro limitDiagonalSpeed_skips) blast
  moreover from h have "stayInWorld w a = a"
    by (intro stayInWorld_inside) blast
  ultimately show "move w 0 a = Some a" by (simp add: move_zero)
qed

theorem C9_move_zero_dt_witness:
  "GRAVITY movingActor \<and> xVelocity movingActor = 400 \<and> yVelocity movingActor = - 500 \<and>
   yAcceleration movingActor = 21 \<and>
   move exampleWorld 0 movingActor = Some movingActor \<and>
   move exampleWorld (1 / 10) movingActor \<noteq> Some movingActor \<and>
   xVelocity glidingActor = 400 \<and> xAcceleration glidingActor = 10 \<and>
   yVelocity glidingActor = 0 \<and>
   move exampleWorld 0 glidingActor = Some glidingActor \<and>
   move exampleWorld (1 / 10) glidingActor \<noteq> Some glidingActor"
  using C9_move_zero_dt [of exampleWorld 0 movingActor, THEN conjunct2, THEN conjunct2]
        C9_move_zero_dt [of exampleWorld 0 glidingActor, THEN conjunct2, THEN conjunct2]
  by (simp add: movingActor_def glidingActor_def exampleWorld_def newActor_def move_steps
        limitDiagonalSpeed_def stayInWorld_def Let_def)

lemma sqrt_25: "sqrt 25 = 5"
  using real_sqrt_abs[of 5] by simp

text \<open>
  The claim as stated fails: the rescale and the clamp do not scale with \<open>dt\<close>. With
  \<open>dt = 0\<close> a diagonal velocity of a top-down actor is still rescaled, and an actor
  below the world's floor is still moved up and landed.
\<close>

theorem C9_move_zero_dt_counterexample:
  "move exampleWorld 0 diagonalActor =
     Some (diagonalActor\<lparr>xVelocity := 12 / 5, yVelocity := 16 / 5\<rparr>) \<and>
   xVelocity diagonalActor = 3 \<and> yVelocity diagonalActor = 4 \<and>
   move exampleWorld 0 sunkActor =
     Some (sunkActor\<lparr>box.y := 580, yVelocity := 0, numJumps := 0, inAir := False\<rparr>) \<and>
   box.y sunkActor = 590 \<and> yVelocity sunkActor = 30"
  by (simp add: move_zero limitDiagonalSpeed_def divide_js_def stayInWorld_def
        stopFalling_def diagonalActor_def sunkActor_def exampleWorld_def newActor_def
        sqrt_25 Let_def)

subsection \<open>MULTI_JUMP zero and one\<close>

lemma moveUpDown_grounded_or_jumped:
  assumes "\<not> inAir a \<or> 1 \<le> numJumps a"
  shows "moveUpDown now u dn l r lk (a\<lparr>MULTI_JUMP := 0\<rparr>) =
           (fst (moveUpDown now u dn l r lk (a\<lparr>MULTI_JUMP := 1\<rparr>))\<lparr>MULTI_JUMP := 0\<rparr>,
            snd (moveUpDown now u dn l r lk (a\<lparr>MULTI_JUMP := 1\<rparr>)))"
proof -
  have c: "(\<not> isInAir (a\<lparr>MULTI_JUMP := 0\<rparr>) \<or>
            MULTI_JUMP (a\<lparr>MULTI_JUMP := 0\<rparr>) > numJumps (a\<lparr>MULTI_JUMP := 0\<rparr>) \<or>
            MULTI_JUMP (a\<lparr>MULTI_JUMP := 0\<rparr>) = - 1) = (\<not> inAir a)"
    using assms by (auto simp: isInAir_def)
  have d: "(\<not> isInAir (a\<lparr>MULTI_JUMP := 1\<rparr>) \<or>
            MULTI_JUMP (a\<lparr>MULTI_JUMP := 1\<rparr>) > numJumps (a\<lparr>MULTI_JUMP := 1\<rparr>) \<or>
            MULTI_JUMP (a\<lparr>MULTI_JUMP := 1\<rparr>) = - 1) = (\<not> inAir a)"
    using assms by (auto simp: isInAir_def)
  define acc where
    "acc = (now - lastJump a > JUMP_DELAY a \<and> (\<not> JUMP_RELEASE a \<or> \<not> jumpKeyDown a))"
  have e: "(now - lastJump (a\<lparr>MULTI_JUMP := m\<rparr>) > JUMP_DELAY (a\<lparr>MULTI_JUMP := m\<rparr>) \<and>
            (\<not> JUMP_RELEASE (a\<lparr>MULTI_JUMP := m\<rparr>) \<or>
             \<not> jumpKeyDown (a\<lparr>MULTI_JUMP := m\<rparr>))) = acc" for m
    by (simp add: acc_def)
  show ?thesis
    unfolding moveUpDown_def c d e
    by (simp add: isInAir_def Let_def)
qed

lemma moveLeftRight_MULTI_JUMP:
  "moveLeftRight l r (a\<lparr>MULTI_JUMP := m\<rparr>) = (moveLeftRight l r a)\<lparr>MULTI_JUMP := m\<rparr>"
  by (simp add: moveLeftRight_def isInAir_def Let_def)

lemma rememberLooked_MULTI_JUMP:
  "rememberLooked k d lk (a\<lparr>MULTI_JUMP := m\<rparr>) = (rememberLooked k d lk a)\<lparr>MULTI_JUMP := m\<rparr>"
  by (simp add: rememberLooked_def)

lemma processDirections_zero_one:
  assumes "\<not> inAir a \<or> 1 \<le> numJumps a"
  shows "processDirections k now d (a\<lparr>MULTI_JUMP := 0\<rparr>) =
           (processDirections k now d (a\<lparr>MULTI_JUMP := 1\<rparr>))\<lparr>MULTI_JUMP := 0\<rparr>"
proof -
  define l where "l = anyIn (keys.left k) d"
  define r where "r = (\<not> l \<and> anyIn (keys.right k) d)"
  define a1 where "a1 = moveLeftRight l r (a\<lparr>lastDirection := d\<rparr>)"
  have g: "\<not> inAir a1 \<or> 1 \<le> numJumps a1"
    using assms by (simp add: a1_def moveLeftRight_frame)
  have m: "moveLeftRight l r (a\<lparr>MULTI_JUMP := m, lastDirection := d\<rparr>) = a1\<lparr>MULTI_JUMP := m\<rparr>" for m
  proof -
    have "a\<lparr>MULTI_JUMP := m, lastDirection := d\<rparr> = a\<lparr>lastDirection := d, MULTI_JUMP := m\<rparr>"
      by (cases a) simp
    then show ?thesis
      by (simp only: a1_def moveLeftRight_MULTI_JUMP)
  qed
  have a11: "a1\<lparr>MULTI_JUMP := 1, MULTI_JUMP := 0\<rparr> = a1\<lparr>MULTI_JUMP := 0\<rparr>" by simp
  show ?thesis
    unfolding processDirections_def Let_def l_def[symmetric] r_def[symmetric] m split_beta
    using moveUpDown_grounded_or_jumped[OF g, of now "anyIn (keys.up k) d" "anyIn (keys.down k) d" l r "l \<or> r"]
    by (simp add: rememberLooked_MULTI_JUMP)
qed

text \<open>
  The documentation of \<^verbatim>\<open>MULTI_JUMP\<close> says that zero is the same as one. The code
  agrees with it for an actor that is on the ground or has jumped at least once: there
  \<^verbatim>\<open>processInput\<close> gives the same result under both values.
\<close>

lemma processInput_MULTI_JUMP_zero_one:
  assumes "\<not> inAir a \<or> 1 \<le> numJumps a"
  shows "processInput kv now d (a\<lparr>MULTI_JUMP := 0\<rparr>) =
           (processInput kv now d (a\<lparr>MULTI_JUMP := 1\<rparr>))\<lparr>MULTI_JUMP := 0\<rparr>"
  using processDirections_zero_one[OF assms]
        processDirections_zero_one[OF assms, of _ _ "lastLooked a"]
  by (simp add: processInput_def split: option.split)

text \<open>
  C10. \<open>MULTI_JUMP = 0\<close> and \<open>MULTI_JUMP = 1\<close> are not identical in behaviour. For an
  actor that is in the air without having jumped (it walked off a ledge),
  \<^verbatim>\<open>processInput\<close> accepts the jump with \<open>MULTI_JUMP = 1\<close> and rejects it with
  \<open>MULTI_JUMP = 0\<close>.
\<close>

theorem C10_multi_jump_zero_differs_from_one:
  "inAir fallingActor \<and> numJumps fallingActor = 0 \<and>
   yVelocity (processInput (Some exampleKeys) 1 (Some [''up''])
                (fallingActor\<lparr>MULTI_JUMP := 1\<rparr>)) = - 500 \<and>
   numJumps (processInput (Some exampleKeys) 1 (Some [''up''])
                (fallingActor\<lparr>MULTI_JUMP := 1\<rparr>)) = 1 \<and>
   lastJump (processInput (Some exampleKeys) 1 (Some [''up''])
                (fallingActor\<lparr>MULTI_JUMP := 1\<rparr>)) = 1 \<and>
   yVelocity (processInput (Some exampleKeys) 1 (Some [''up''])
                (fallingActor\<lparr>MULTI_JUMP := 0\<rparr>)) = 0 \<and>
   numJumps (processInput (Some exampleKeys) 1 (Some [''up''])
                (fallingActor\<lparr>MULTI_JUMP := 0\<rparr>)) = 0 \<and>
   lastJump (processInput (Some exampleKeys) 1 (Some [''up''])
                (fallingActor\<lparr>MULTI_JUMP := 0\<rparr>)) = 0"
  by (simp add: processInput_def processDirections_def moveLeftRight_def moveUpDown_def
        rememberLooked_def isInAir_def anyIn_def fallingActor_def exampleKeys_def
        newActor_def Let_def)

end
